theory Spec2Isabelle
  imports Complex_Main "HOL-Library.Sublist"
begin

section \<open>BTC short straddle monitor: premium extraction, history and classifiers\<close>

text \<open>
  A shallow embedding of the decision logic of \<^verbatim>\<open>app.py\<close>: the per-leg price lookup
  (\<^verbatim>\<open>get_option_price\<close>), the premium extractor (\<^verbatim>\<open>calculate_straddle_premiums\<close>), the
  bounded history kept in the session state by \<^verbatim>\<open>main\<close>, and the two classifiers
  (\<^verbatim>\<open>determine_trend\<close>, \<^verbatim>\<open>determine_risk_status\<close>).

  Conventions of the model.
  \<^item> Prices are Python floats in the source. A float is modelled as the rational number
    it denotes; infinities and NaN are outside the model. Comparisons, \<^verbatim>\<open>min\<close> and \<^verbatim>\<open>max\<close> of
    floats are exact. The operations that round (\<^verbatim>\<open>+\<close>, \<^verbatim>\<open>-\<close>, \<^verbatim>\<open>*\<close>, \<^verbatim>\<open>/\<close> and \<^verbatim>\<open>sum\<close>) are
    not fixed by the model: every function that computes takes them as a parameter
    \<open>ops\<close>, and a general theorem holds for every choice of them, the binary floating
    point of the interpreter included. \<open>exact_arith\<close> is the choice without rounding;
    the concrete runs are evaluated with it.
  \<^item> A ticker of the option chain is a Python dict read with \<^verbatim>\<open>.get(key, default)\<close>. It is a
    record of optional fields, \<open>None\<close> meaning that the key is absent; a present field is
    taken to hold a value of the expected kind, so that \<^verbatim>\<open>float(...)\<close> is the identity.
  \<^item> Every exception the modelled code can raise is a value \<open>Inl e\<close> of a sum type.
  \<^item> The labels returned by the classifiers carry an emoji in the source; the trend label
    is a datatype and the risk icon is a datatype of the four circle colours.
\<close>

subsection \<open>Python primitives used by the source\<close>

datatype error = ZeroDivisionError | IndexError | ValueError

text \<open>\<^verbatim>\<open>d.get(key, default)\<close> on an optional field.\<close>

definition dict_get :: "'a option \<Rightarrow> 'a \<Rightarrow> 'a" where
  "dict_get field dflt = (case field of None \<Rightarrow> dflt | Some v \<Rightarrow> v)"

text \<open>\<^verbatim>\<open>xs[i:]\<close>: a negative start counts from the end, and the start is clamped to the list.\<close>

definition slice_from :: "'a list \<Rightarrow> int \<Rightarrow> 'a list" where
  "slice_from xs i =
     (let n = int (length xs);
          start = (if i < 0 then max (i + n) 0 else min i n)
      in drop (nat start) xs)"

text \<open>\<^verbatim>\<open>xs[:k]\<close> and \<^verbatim>\<open>xs[k:]\<close> for the non-negative \<open>k = len(xs) // 2\<close> are \<open>take k xs\<close> and
  \<open>drop k xs\<close>.\<close>

text \<open>\<^verbatim>\<open>xs[i]\<close>: a negative index counts from the end; out of range raises.\<close>

definition py_index :: "'a list \<Rightarrow> int \<Rightarrow> error + 'a" where
  "py_index xs i =
     (if i < - int (length xs) \<or> int (length xs) \<le> i then Inl IndexError
      else Inr (xs ! nat (if i < 0 then i + int (length xs) else i)))"

text \<open>The float operations of the interpreter: the result of an operation on two floats,
  and of \<^verbatim>\<open>sum\<close> on a list of floats, as the float it returns.\<close>

record float_ops =
  fl_add :: "rat \<Rightarrow> rat \<Rightarrow> rat"
  fl_sub :: "rat \<Rightarrow> rat \<Rightarrow> rat"
  fl_mul :: "rat \<Rightarrow> rat \<Rightarrow> rat"
  fl_div :: "rat \<Rightarrow> rat \<Rightarrow> rat"
  fl_sum :: "rat list \<Rightarrow> rat"

definition exact_arith :: float_ops where
  "exact_arith =
     \<lparr> fl_add = (\<lambda>a b. a + b), fl_sub = (\<lambda>a b. a - b), fl_mul = (\<lambda>a b. a * b),
       fl_div = (\<lambda>a b. a / b), fl_sum = sum_list \<rparr>"

text \<open>\<^verbatim>\<open>a / b\<close> raises on a zero divisor.\<close>

definition py_truediv :: "float_ops \<Rightarrow> rat \<Rightarrow> rat \<Rightarrow> error + rat" where
  "py_truediv ops a b = (if b = 0 then Inl ZeroDivisionError else Inr (fl_div ops a b))"

text \<open>\<^verbatim>\<open>min(xs)\<close> and \<^verbatim>\<open>max(xs)\<close> scan the list from the left and raise on an empty one.\<close>

fun py_min :: "rat list \<Rightarrow> error + rat" where
  "py_min [] = Inl ValueError"
| "py_min (x # xs) = Inr (foldl min x xs)"

fun py_max :: "rat list \<Rightarrow> error + rat" where
  "py_max [] = Inl ValueError"
| "py_max (x # xs) = Inr (foldl max x xs)"

subsection \<open>Data model\<close>

record ticker =
  strike_price :: "rat option"
  symbol :: "string option"
  mark_price :: "rat option"
  spot_price :: "rat option"

text \<open>The keys shared by the dict that \<^verbatim>\<open>calculate_straddle_premiums\<close> returns and by the
  dict that \<^verbatim>\<open>main\<close> appends to the history.\<close>

record premium_core =
  straddle_a :: rat
  straddle_b :: rat
  combined :: rat
  spot :: "rat option"

record straddle_premium = premium_core +
  call_1 :: rat
  put_1 :: rat
  call_2 :: rat
  put_2 :: rat

type_synonym datetime = int

record history_entry = premium_core +
  timestamp :: datetime

datatype trend_label = Insufficient_Data | Rising | Falling | Flat

datatype icon = White_Circle | Green_Circle | Red_Circle | Yellow_Circle

type_synonym risk_status = "string \<times> icon \<times> string"

record session_state =
  premium_history :: "history_entry list"
  last_update :: "datetime option"

definition STRIKE_1 :: rat where
  "STRIKE_1 = 75000"

definition STRIKE_2 :: rat where
  "STRIKE_2 = 80000"

subsection \<open>Premium extractor\<close>

text \<open>The test of the \<^verbatim>\<open>for\<close> loop of \<^verbatim>\<open>get_option_price\<close>.\<close>

definition leg_matches :: "rat \<Rightarrow> string \<Rightarrow> ticker \<Rightarrow> bool" where
  "leg_matches strike option_type opt \<longleftrightarrow>
     dict_get (strike_price opt) 0 = strike \<and> prefix option_type (dict_get (symbol opt) [])"

fun scan_chain :: "ticker list \<Rightarrow> rat \<Rightarrow> string \<Rightarrow> rat option" where
  "scan_chain [] strike option_type = None"
| "scan_chain (opt # rest) strike option_type =
     (if leg_matches strike option_type opt then Some (dict_get (mark_price opt) 0)
      else scan_chain rest strike option_type)"

text \<open>The option chain is \<open>None\<close> when the fetch failed; \<^verbatim>\<open>not option_chain\<close> holds for
  \<open>None\<close> and for the empty list.\<close>

definition get_option_price :: "ticker list option \<Rightarrow> rat \<Rightarrow> string \<Rightarrow> rat option" where
  "get_option_price option_chain strike option_type =
     (case option_chain of
        None \<Rightarrow> None
      | Some chain \<Rightarrow> if chain = [] then None else scan_chain chain strike option_type)"

definition get_spot_price :: "ticker list option \<Rightarrow> rat option" where
  "get_spot_price option_chain =
     (case option_chain of
        None \<Rightarrow> None
      | Some chain \<Rightarrow>
          (case chain of [] \<Rightarrow> None | opt # rest \<Rightarrow> Some (dict_get (spot_price opt) 0)))"

definition calculate_straddle_premiums ::
    "float_ops \<Rightarrow> ticker list option \<Rightarrow> rat \<Rightarrow> rat \<Rightarrow> straddle_premium option" where
  "calculate_straddle_premiums ops option_chain strike_1 strike_2 =
     (let c1 = get_option_price option_chain strike_1 ''C'';
          p1 = get_option_price option_chain strike_1 ''P'';
          c2 = get_option_price option_chain strike_2 ''C'';
          p2 = get_option_price option_chain strike_2 ''P'';
          sp = get_spot_price option_chain
      in if None \<in> set [c1, p1, c2, p2] then None
         else
           let sa = fl_add ops (the c1) (the p1);
               sb = fl_add ops (the c2) (the p2);
               total = fl_add ops sa sb
           in Some \<lparr> straddle_a = sa, straddle_b = sb, combined = total, spot = sp,
                     call_1 = the c1, put_1 = the p1, call_2 = the c2, put_2 = the p2 \<rparr>)"

subsection \<open>Trend classifier\<close>

text \<open>The body of \<^verbatim>\<open>determine_trend\<close> from the two averages on: it works on the list
  \<^verbatim>\<open>recent\<close> of numbers that the comprehension has built.\<close>

definition trend_of_recent :: "float_ops \<Rightarrow> rat list \<Rightarrow> error + trend_label" where
  "trend_of_recent ops recent =
     (let half = length recent div 2
      in case py_truediv ops (fl_sum ops (take half recent)) (of_nat half) of
           Inl e \<Rightarrow> Inl e
         | Inr first_half_avg \<Rightarrow>
        (case py_truediv ops (fl_sum ops (drop half recent))
                (of_nat (length recent - half)) of
           Inl e \<Rightarrow> Inl e
         | Inr second_half_avg \<Rightarrow>
        (case py_truediv ops (fl_sub ops second_half_avg first_half_avg) first_half_avg of
           Inl e \<Rightarrow> Inl e
         | Inr ratio \<Rightarrow>
             let change_pct = fl_mul ops ratio 100
             in if change_pct > 1 then Inr Rising
                else if change_pct < - 1 then Inr Falling
                else Inr Flat)))"

definition determine_trend ::
    "float_ops \<Rightarrow> history_entry list \<Rightarrow> int \<Rightarrow> error + trend_label" where
  "determine_trend ops history window =
     (if int (length history) < window then Inr Insufficient_Data
      else trend_of_recent ops (map combined (slice_from history (- window))))"

subsection \<open>Risk classifier\<close>

text \<open>The body of \<^verbatim>\<open>determine_risk_status\<close> after the comprehension that builds
  \<^verbatim>\<open>premiums\<close>.\<close>

definition risk_of_premiums :: "float_ops \<Rightarrow> rat list \<Rightarrow> rat \<Rightarrow> error + risk_status" where
  "risk_of_premiums ops premiums current_premium =
     (case py_truediv ops (fl_sum ops premiums) (of_nat (length premiums)) of
        Inl e \<Rightarrow> Inl e
      | Inr avg_premium \<Rightarrow>
     (case py_min premiums of
        Inl e \<Rightarrow> Inl e
      | Inr min_premium \<Rightarrow>
     (case py_max premiums of
        Inl e \<Rightarrow> Inl e
      | Inr max_premium \<Rightarrow>
     (case py_truediv ops (fl_sub ops max_premium min_premium) avg_premium of
        Inl e \<Rightarrow> Inl e
      | Inr vol_ratio \<Rightarrow>
     (let volatility = fl_mul ops vol_ratio 100
      in case py_index premiums (- 10) of
        Inl e \<Rightarrow> Inl e
      | Inr ten_ago \<Rightarrow>
     (case py_truediv ops (fl_sub ops current_premium ten_ago) ten_ago of
        Inl e \<Rightarrow> Inl e
      | Inr change_ratio \<Rightarrow>
          let recent_change_pct = fl_mul ops change_ratio 100
          in if recent_change_pct < - 5 then
               Inr (''Safe'', Green_Circle, ''Premium compressing - Theta decay working well'')
             else if recent_change_pct > 10 then
               Inr (''Risky'', Red_Circle, ''Premium expanding - Volatility risk increasing'')
             else if volatility > 15 then
               Inr (''Risky'', Red_Circle, ''High premium volatility detected'')
             else if recent_change_pct > 5 then
               Inr (''Neutral'', Yellow_Circle, ''Slight premium expansion - Monitor closely'')
             else
               Inr (''Safe'', Green_Circle,
                    ''Premium stable - Position behaving as expected'')))))))"

definition determine_risk_status ::
    "float_ops \<Rightarrow> history_entry list \<Rightarrow> rat \<Rightarrow> error + risk_status" where
  "determine_risk_status ops history current_premium =
     (if length history < 10 then Inr (''Neutral'', White_Circle, ''Collecting initial data...'')
      else risk_of_premiums ops (map combined history) current_premium)"

subsection \<open>The classifiers with the history object threaded through\<close>

text \<open>The history is a Python list object shared with the session state. The three ways in
  which the classifiers touch it are \<^verbatim>\<open>len(history)\<close>, the slice \<^verbatim>\<open>history[-window:]\<close>, which
  builds a new list, and the iteration of a comprehension. Each is an operation on the
  object that returns its result together with the object as it leaves it.\<close>

definition list_len :: "'a list \<Rightarrow> nat \<times> 'a list" where
  "list_len obj = (length obj, obj)"

definition list_slice_from :: "'a list \<Rightarrow> int \<Rightarrow> 'a list \<times> 'a list" where
  "list_slice_from obj i = (slice_from obj i, obj)"

definition list_iterate :: "'a list \<Rightarrow> 'a list \<times> 'a list" where
  "list_iterate obj = (obj, obj)"

definition determine_trend_st ::
    "float_ops \<Rightarrow> history_entry list \<Rightarrow> int \<Rightarrow> (error + trend_label) \<times> history_entry list" where
  "determine_trend_st ops history window =
     (let (n, history1) = list_len history
      in if int n < window then (Inr Insufficient_Data, history1)
         else
           let (sliced, history2) = list_slice_from history1 (- window);
               recent = map combined sliced
           in (trend_of_recent ops recent, history2))"

definition determine_risk_status_st ::
    "float_ops \<Rightarrow> history_entry list \<Rightarrow> rat \<Rightarrow> (error + risk_status) \<times> history_entry list" where
  "determine_risk_status_st ops history current_premium =
     (let (n, history1) = list_len history
      in if n < 10 then
           (Inr (''Neutral'', White_Circle, ''Collecting initial data...''), history1)
         else
           let (items, history2) = list_iterate history1;
               premiums = map combined items
           in (risk_of_premiums ops premiums current_premium, history2))"

subsection \<open>History store and the polling cycle of \<^verbatim>\<open>main\<close>\<close>

text \<open>The append of \<^verbatim>\<open>main\<close> followed by its cap: \<^verbatim>\<open>premium_history[-500:]\<close> once the list
  is longer than 500.\<close>

definition append_history :: "history_entry list \<Rightarrow> history_entry \<Rightarrow> history_entry list" where
  "append_history history entry =
     (let appended = history @ [entry]
      in if length appended > 500 then slice_from appended (- 500) else appended)"

text \<open>What one run of \<^verbatim>\<open>main\<close> shows: the dashboard, one of its two error banners, or an
  exception escaping from a classifier.\<close>

datatype display =
    Dashboard straddle_premium trend_label risk_status
  | Raised error
  | Could_Not_Calculate
  | Fetch_Failed

text \<open>One run of the data section of \<^verbatim>\<open>main\<close>. The result of \<^verbatim>\<open>fetch_option_chain\<close> and
  the clock reading are inputs. The session state is written before the classifiers run,
  so it is the updated state that survives an exception raised by one of them.\<close>

definition main_cycle ::
    "float_ops \<Rightarrow> datetime \<Rightarrow> ticker list option \<Rightarrow> session_state \<Rightarrow> display \<times> session_state" where
  "main_cycle ops now option_chain st =
     (if option_chain = None \<or> option_chain = Some [] then (Fetch_Failed, st)
      else
        case calculate_straddle_premiums ops option_chain STRIKE_1 STRIKE_2 of
          None \<Rightarrow> (Could_Not_Calculate, st)
        | Some premiums \<Rightarrow>
            let entry = \<lparr> straddle_a = straddle_a premiums, straddle_b = straddle_b premiums,
                          combined = combined premiums, spot = spot premiums,
                          timestamp = now \<rparr>;
                st' = st \<lparr> premium_history := append_history (premium_history st) entry,
                          last_update := Some now \<rparr>
            in (case determine_trend ops (premium_history st') 5 of
                  Inl e \<Rightarrow> (Raised e, st')
                | Inr trend \<Rightarrow>
                 (case determine_risk_status ops (premium_history st') (combined premiums) of
                    Inl e \<Rightarrow> (Raised e, st')
                  | Inr risk \<Rightarrow> (Dashboard premiums trend risk, st'))))"

text \<open>The session state as the script initialises it, and a sequence of runs of \<^verbatim>\<open>main\<close>,
  one per refresh, each given its clock reading and its fetched chain.\<close>

definition initial_session :: session_state where
  "initial_session = \<lparr> premium_history = [], last_update = None \<rparr>"

fun run_cycles ::
    "float_ops \<Rightarrow> (datetime \<times> ticker list option) list \<Rightarrow> session_state
       \<Rightarrow> display list \<times> session_state" where
  "run_cycles ops [] st = ([], st)"
| "run_cycles ops ((now, option_chain) # rest) st =
     (let (shown, st') = main_cycle ops now option_chain st;
          (later, st'') = run_cycles ops rest st'
      in (shown # later, st''))"

subsection \<open>The classifiers as the specification words them\<close>

text \<open>The trend rule in the specification's words: the last \<open>window\<close> combined premiums, a
  first half of \<open>floor (window / 2)\<close> of them and a second half of the rest, and the
  percentage change between the two averages. The formulas are read with the float
  operations \<open>ops\<close> of the interpreter, and a division is the bare operation here: the
  theorems below say where the code agrees with these definitions.\<close>

definition average :: "float_ops \<Rightarrow> rat list \<Rightarrow> rat" where
  "average ops xs = fl_div ops (fl_sum ops xs) (of_nat (length xs))"

definition last_premiums :: "history_entry list \<Rightarrow> int \<Rightarrow> rat list" where
  "last_premiums history window = map combined (drop (length history - nat window) history)"

definition first_half :: "int \<Rightarrow> rat list \<Rightarrow> rat list" where
  "first_half window recent = take (nat (window div 2)) recent"

definition second_half :: "int \<Rightarrow> rat list \<Rightarrow> rat list" where
  "second_half window recent = drop (nat (window div 2)) recent"

definition change_pct_spec :: "float_ops \<Rightarrow> rat list \<Rightarrow> rat list \<Rightarrow> rat" where
  "change_pct_spec ops fh sh =
     fl_mul ops (fl_div ops (fl_sub ops (average ops sh) (average ops fh)) (average ops fh)) 100"

definition trend_of_change :: "rat \<Rightarrow> trend_label" where
  "trend_of_change c = (if c > 1 then Rising else if c < - 1 then Falling else Flat)"

definition trend_spec :: "float_ops \<Rightarrow> history_entry list \<Rightarrow> int \<Rightarrow> trend_label" where
  "trend_spec ops history window =
     (if int (length history) < window then Insufficient_Data
      else
        let recent = last_premiums history window
        in trend_of_change
             (change_pct_spec ops (first_half window recent) (second_half window recent)))"

text \<open>The risk rule in the specification's words, over the premiums of the whole history.\<close>

definition volatility_pct :: "float_ops \<Rightarrow> rat list \<Rightarrow> rat" where
  "volatility_pct ops premiums =
     fl_mul ops
       (fl_div ops (fl_sub ops (Max (set premiums)) (Min (set premiums))) (average ops premiums))
       100"

definition ten_polls_ago :: "rat list \<Rightarrow> rat" where
  "ten_polls_ago premiums = premiums ! (length premiums - 10)"

definition recent_change_pct_spec :: "float_ops \<Rightarrow> rat list \<Rightarrow> rat \<Rightarrow> rat" where
  "recent_change_pct_spec ops premiums current =
     fl_mul ops
       (fl_div ops (fl_sub ops current (ten_polls_ago premiums)) (ten_polls_ago premiums))
       100"

definition risk_of_change :: "rat \<Rightarrow> rat \<Rightarrow> risk_status" where
  "risk_of_change recent_change volatility =
     (if recent_change < - 5 then
        (''Safe'', Green_Circle, ''Premium compressing - Theta decay working well'')
      else if recent_change > 10 then
        (''Risky'', Red_Circle, ''Premium expanding - Volatility risk increasing'')
      else if volatility > 15 then
        (''Risky'', Red_Circle, ''High premium volatility detected'')
      else if recent_change > 5 then
        (''Neutral'', Yellow_Circle, ''Slight premium expansion - Monitor closely'')
      else
        (''Safe'', Green_Circle, ''Premium stable - Position behaving as expected''))"

definition risk_spec :: "float_ops \<Rightarrow> rat list \<Rightarrow> rat \<Rightarrow> risk_status" where
  "risk_spec ops premiums current =
     risk_of_change (recent_change_pct_spec ops premiums current) (volatility_pct ops premiums)"

subsection \<open>Sample data\<close>

text \<open>A history entry with a given combined premium, a ticker with a given strike, symbol and
  optional mark price, and a four-leg chain whose combined premium is \<open>v\<close>.\<close>

definition sample_entry :: "rat \<Rightarrow> history_entry" where
  "sample_entry c =
     \<lparr> straddle_a = c, straddle_b = 0, combined = c, spot = None, timestamp = 0 \<rparr>"

definition sample_ticker :: "rat \<Rightarrow> string \<Rightarrow> rat option \<Rightarrow> ticker" where
  "sample_ticker k nm m =
     \<lparr> strike_price = Some k, symbol = Some nm, mark_price = m, spot_price = Some 77000 \<rparr>"

definition sample_chain :: "rat \<Rightarrow> ticker list" where
  "sample_chain v =
     [sample_ticker 75000 ''C-BTC-75000'' (Some (v / 4)),
      sample_ticker 75000 ''P-BTC-75000'' (Some (v / 4)),
      sample_ticker 80000 ''C-BTC-80000'' (Some (v / 4)),
      sample_ticker 80000 ''P-BTC-80000'' (Some (v / 4))]"

text \<open>A four-leg chain none of whose tickers carries a mark price.\<close>

definition priceless_chain :: "ticker list" where
  "priceless_chain =
     [sample_ticker 75000 ''C-BTC-75000'' None,
      sample_ticker 75000 ''P-BTC-75000'' None,
      sample_ticker 80000 ''C-BTC-80000'' None,
      sample_ticker 80000 ''P-BTC-80000'' None]"

text \<open>Fifteen combined premiums falling linearly from 100 to 70, and the polls that
  deliver them, one per clock tick.\<close>

definition poll_indices :: "int list" where
  "poll_indices = [0, 1, 2, 3, 4, 5, 6, 7, 8, 9, 10, 11, 12, 13, 14]"

definition falling_premium :: "int \<Rightarrow> rat" where
  "falling_premium i = 100 - 30 * of_int i / 14"

definition falling_premiums :: "rat list" where
  "falling_premiums = map falling_premium poll_indices"

definition falling_polls :: "(datetime \<times> ticker list option) list" where
  "falling_polls = map (\<lambda>i. (i, Some (sample_chain (falling_premium i)))) poll_indices"

subsection \<open>A leg found without a price\<close>

text \<open>The first ticker of the chain that passes the test of \<^verbatim>\<open>get_option_price\<close> exists
  and has no mark price.\<close>

definition first_match_lacks_price :: "ticker list \<Rightarrow> rat \<Rightarrow> string \<Rightarrow> bool" where
  "first_match_lacks_price chain strike option_type =
     (case find (leg_matches strike option_type) chain of
        None \<Rightarrow> False
      | Some opt \<Rightarrow> mark_price opt = None)"

section \<open>Properties\<close>

subsection \<open>Facts about the primitives\<close>

lemma slice_from_neg: "0 < k \<Longrightarrow> slice_from xs (- int k) = drop (length xs - k) xs"
  by (simp add: slice_from_def Let_def nat_diff_distrib' max_def)

lemma append_history_drop:
  "append_history h e = drop (Suc (length h) - 500) (h @ [e])"
proof -
  have "slice_from (h @ [e]) (- int 500) = drop (length (h @ [e]) - 500) (h @ [e])"
    by (rule slice_from_neg) simp
  then show ?thesis
    by (simp add: append_history_def Let_def)
qed

lemma cap_step:
  "append_history (drop (length xs - 500) xs) e = drop (Suc (length xs) - 500) (xs @ [e])"
proof (cases "length xs < 500")
  case True
  then show ?thesis by (simp add: append_history_drop)
next
  case False
  then have n: "500 \<le> length xs" by simp
  then have len: "length (drop (length xs - 500) xs) = 500" by simp
  have "append_history (drop (length xs - 500) xs) e
      = drop 1 (drop (length xs - 500) xs @ [e])"
    by (simp only: append_history_drop len) simp
  also have "\<dots> = drop (Suc (length xs - 500)) xs @ [e]"
    using len by (simp del: length_drop)
  also have "\<dots> = drop (Suc (length xs) - 500) (xs @ [e])"
  proof -
    have "Suc (length xs - 500) = Suc (length xs) - 500" using n by arith
    moreover have "Suc (length xs) - 500 \<le> length xs" using n by arith
    ultimately show ?thesis by simp
  qed
  finally show ?thesis .
qed

lemma foldl_append_history:
  "foldl append_history [] es = drop (length es - 500) es"
proof (induction es rule: rev_induct)
  case Nil
  show ?case by simp
next
  case (snoc e es)
  have "foldl append_history [] (es @ [e]) = append_history (foldl append_history [] es) e"
    by simp
  also have "\<dots> = append_history (drop (length es - 500) es) e"
    by (simp only: snoc.IH)
  also have "\<dots> = drop (Suc (length es) - 500) (es @ [e])"
    by (rule cap_step)
  finally show ?case by simp
qed

lemma foldl_min_Min: "foldl min x xs = Min (set (x # xs))" for x :: rat
  by (simp only: Min.set_eq_fold foldl_conv_fold min.commute)

lemma foldl_max_Max: "foldl max x xs = Max (set (x # xs))" for x :: rat
  by (simp only: Max.set_eq_fold foldl_conv_fold max.commute)

lemma py_min_Min: "ps \<noteq> [] \<Longrightarrow> py_min ps = Inr (Min (set ps))"
proof (cases ps)
  case Nil
  assume "ps \<noteq> []"
  with Nil show ?thesis by simp
next
  case (Cons x xs)
  show ?thesis unfolding Cons py_min.simps foldl_min_Min ..
qed

lemma py_max_Max: "ps \<noteq> [] \<Longrightarrow> py_max ps = Inr (Max (set ps))"
proof (cases ps)
  case Nil
  assume "ps \<noteq> []"
  with Nil show ?thesis by simp
next
  case (Cons x xs)
  show ?thesis unfolding Cons py_max.simps foldl_max_Max ..
qed

lemma py_index_neg:
  "0 < k \<Longrightarrow> k \<le> length xs \<Longrightarrow> py_index xs (- int k) = Inr (xs ! (length xs - k))"
  by (simp add: py_index_def Let_def nat_diff_distrib')

lemma py_truediv_nonzero: "b \<noteq> 0 \<Longrightarrow> py_truediv ops a b = Inr (fl_div ops a b)"
  by (simp add: py_truediv_def)

lemma slice_from_neg_window:
  assumes "0 < window" "window \<le> int (length history)"
  shows "slice_from history (- window) = drop (length history - nat window) history"
  using assms slice_from_neg [of "nat window" history] by simp

subsection \<open>Facts about the lookup\<close>

lemma scan_chain_find:
  "scan_chain chain s ty
     = map_option (\<lambda>opt. dict_get (mark_price opt) 0) (find (leg_matches s ty) chain)"
  by (induction chain) simp_all

lemma scan_chain_None_iff:
  "scan_chain chain s ty = None \<longleftrightarrow> (\<forall>opt\<in>set chain. \<not> leg_matches s ty opt)"
  by (induction chain) simp_all

lemma get_option_price_chain:
  "get_option_price (Some chain) s ty = scan_chain chain s ty"
  by (cases chain) (simp_all add: get_option_price_def)

subsection \<open>The classifiers against the specification's wording\<close>

lemma trend_of_recent_spec:
  assumes len: "2 \<le> length recent"
    and nz: "average ops (take (length recent div 2) recent) \<noteq> 0"
  shows "trend_of_recent ops recent =
     Inr (trend_of_change (change_pct_spec ops (take (length recent div 2) recent)
                                                (drop (length recent div 2) recent)))"
proof -
  let ?half = "length recent div 2"
  let ?fh = "take ?half recent"
  let ?sh = "drop ?half recent"
  have half_pos: "0 < ?half" using len by simp
  have rest_pos: "0 < length recent - ?half" using len by simp
  have len_fh: "length ?fh = ?half" by simp
  have len_sh: "length ?sh = length recent - ?half" by simp
  have first: "py_truediv ops (fl_sum ops ?fh) (of_nat ?half) = Inr (average ops ?fh)"
    using half_pos by (simp only: average_def len_fh) (simp add: py_truediv_def)
  have second: "py_truediv ops (fl_sum ops ?sh) (of_nat (length recent - ?half))
      = Inr (average ops ?sh)"
    using rest_pos by (simp only: average_def len_sh) (simp add: py_truediv_def)
  have third: "py_truediv ops (fl_sub ops (average ops ?sh) (average ops ?fh)) (average ops ?fh)
      = Inr (fl_div ops (fl_sub ops (average ops ?sh) (average ops ?fh)) (average ops ?fh))"
    using nz by (rule py_truediv_nonzero)
  show ?thesis
    by (simp only: trend_of_recent_def Let_def first second third sum.case)
      (simp add: trend_of_change_def change_pct_spec_def)
qed

lemma risk_of_premiums_spec:
  assumes len: "10 \<le> length premiums"
    and avg: "average ops premiums \<noteq> 0"
    and ten: "ten_polls_ago premiums \<noteq> 0"
  shows "risk_of_premiums ops premiums current = Inr (risk_spec ops premiums current)"
proof -
  have ne: "premiums \<noteq> []" using len by auto
  have a: "py_truediv ops (fl_sum ops premiums) (of_nat (length premiums))
      = Inr (average ops premiums)"
    using ne by (simp add: py_truediv_def average_def)
  have v: "py_truediv ops (fl_sub ops (Max (set premiums)) (Min (set premiums)))
        (average ops premiums)
      = Inr (fl_div ops (fl_sub ops (Max (set premiums)) (Min (set premiums)))
               (average ops premiums))"
    using avg by (rule py_truediv_nonzero)
  have i: "py_index premiums (- 10) = Inr (ten_polls_ago premiums)"
    using py_index_neg [of 10 premiums] len by (simp add: ten_polls_ago_def)
  have c: "py_truediv ops (fl_sub ops current (ten_polls_ago premiums)) (ten_polls_ago premiums)
      = Inr (fl_div ops (fl_sub ops current (ten_polls_ago premiums)) (ten_polls_ago premiums))"
    using ten by (rule py_truediv_nonzero)
  show ?thesis
    by (simp only: risk_of_premiums_def a py_min_Min [OF ne] py_max_Max [OF ne] Let_def
          v i c sum.case)
      (simp add: risk_spec_def risk_of_change_def recent_change_pct_spec_def
        volatility_pct_def)
qed

text \<open>The unfoldings that evaluate the classifiers and a run of \<^verbatim>\<open>main\<close> on sample data.\<close>

lemmas classifier_eval = determine_trend_def trend_of_recent_def determine_risk_status_def
  risk_of_premiums_def slice_from_def py_truediv_def py_index_def sample_entry_def Let_def
  exact_arith_def

lemmas cycle_eval = main_cycle_def calculate_straddle_premiums_def get_option_price_def
  get_spot_price_def leg_matches_def dict_get_def sample_chain_def sample_ticker_def
  STRIKE_1_def STRIKE_2_def append_history_def initial_session_def priceless_chain_def

lemma map_slice_from: "map f (slice_from xs i) = slice_from (map f xs) i"
  by (simp add: slice_from_def Let_def drop_map)

lemmas spec_eval = average_def first_half_def second_half_def last_premiums_def
  change_pct_spec_def trend_of_change_def trend_spec_def sample_entry_def Let_def
  exact_arith_def

lemmas risk_spec_eval = risk_spec_def risk_of_change_def recent_change_pct_spec_def
  volatility_pct_def ten_polls_ago_def average_def sample_entry_def exact_arith_def

lemma falling_premiums_values:
  "falling_premiums = [100, 685 / 7, 670 / 7, 655 / 7, 640 / 7, 625 / 7, 610 / 7, 85,
                       580 / 7, 565 / 7, 550 / 7, 535 / 7, 520 / 7, 505 / 7, 70]"
  by (simp add: falling_premiums_def falling_premium_def poll_indices_def)

lemma falling_run_history:
  "map combined (premium_history (snd (run_cycles exact_arith falling_polls initial_session)))
     = falling_premiums"
  by (simp add: falling_premiums_def falling_polls_def falling_premium_def poll_indices_def
      cycle_eval classifier_eval)

text \<open>A run of \<^verbatim>\<open>main\<close> changes the history by the capped append or not at all.\<close>

lemma length_append_history:
  "length h \<le> 500 \<Longrightarrow> length (append_history h e) \<le> 500"
  by (simp add: append_history_drop)

lemma main_cycle_history:
  "premium_history (snd (main_cycle ops now oc st)) = premium_history st \<or>
   (\<exists>e. premium_history (snd (main_cycle ops now oc st))
          = append_history (premium_history st) e)"
  by (auto simp add: main_cycle_def Let_def split: option.splits sum.splits)

lemma main_cycle_cap:
  assumes "length (premium_history st) \<le> 500"
  shows "length (premium_history (snd (main_cycle ops now oc st))) \<le> 500"
  using main_cycle_history [of ops now oc st] assms length_append_history by auto

lemma run_cycles_cap:
  "length (premium_history st) \<le> 500 \<Longrightarrow>
   length (premium_history (snd (run_cycles ops polls st))) \<le> 500"
proof (induction polls arbitrary: st)
  case Nil
  then show ?case by simp
next
  case (Cons poll polls)
  obtain now oc where poll: "poll = (now, oc)" by (cases poll)
  have "length (premium_history (snd (main_cycle ops now oc st))) \<le> 500"
    using Cons.prems by (rule main_cycle_cap)
  from Cons.IH [OF this] show ?case
    by (simp add: poll case_prod_beta)
qed

subsection \<open>History store\<close>

text \<open>
  C2. Starting from the empty store, after any sequence \<open>es\<close> of appends the store holds at
  most 500 entries; while at most 500 entries have been appended it holds all of them, and
  once more than 500 have been appended it holds exactly the 500 most recent ones, in the
  order in which they were appended. The history of the session never exceeds 500 entries
  either, whatever sequence of runs of \<^verbatim>\<open>main\<close> follows the initial state and whatever the
  float operations are.
\<close>

theorem history_store_cap:
  "length (foldl append_history [] es) \<le> 500 \<and>
   (length es \<le> 500 \<longrightarrow> foldl append_history [] es = es) \<and>
   (500 < length es \<longrightarrow>
      length (foldl append_history [] es) = 500 \<and>
      foldl append_history [] es = drop (length es - 500) es) \<and>
   length (premium_history (snd (run_cycles ops polls initial_session))) \<le> 500"
  by (simp add: foldl_append_history run_cycles_cap initial_session_def)

theorem history_store_cap_witness:
  "500 < length (map sample_entry (map of_nat [0..<502])) \<and>
   length (foldl append_history [] (map sample_entry (map of_nat [0..<502]))) = 500 \<and>
   foldl append_history [] (map sample_entry (map of_nat [0..<502]))
     = drop 2 (map sample_entry (map of_nat [0..<502])) \<and>
   length [sample_entry 1, sample_entry 2] \<le> 500 \<and>
   foldl append_history [] [sample_entry 1, sample_entry 2] = [sample_entry 1, sample_entry 2]"
proof -
  let ?long = "map sample_entry (map of_nat [0..<502])"
  let ?short = "[sample_entry 1, sample_entry 2]"
  have big: "500 < length ?long" by simp
  have two: "length ?long - 500 = 2" by simp
  have small: "length ?short \<le> 500" by simp
  have cut: "drop (length ?long - 500) ?long = drop 2 ?long"
    by (simp only: two)
  from history_store_cap [of ?long] big
  have "length (foldl append_history [] ?long) = 500"
    and "foldl append_history [] ?long = drop (length ?long - 500) ?long"
    by blast+
  moreover from history_store_cap [of ?short] small
  have "foldl append_history [] ?short = ?short"
    by blast
  ultimately show ?thesis
    using big small cut by metis
qed

subsection \<open>Premium extractor\<close>

text \<open>
  C1. Whenever the four lookups (call and put at each of the two strikes) all find a price,
  the extractor returns a record whose four legs are the prices found, whose
  \<open>straddle_a\<close> is \<open>call_1 + put_1\<close>, whose \<open>straddle_b\<close> is \<open>call_2 + put_2\<close> and whose
  \<open>combined\<close> is \<open>straddle_a + straddle_b\<close>, that is \<open>(call_1 + put_1) + (call_2 + put_2)\<close>,
  each sum being the float addition of the interpreter, whatever it rounds to.
\<close>

theorem straddle_premium_sums:
  assumes "get_option_price option_chain strike_1 ''C'' = Some c1"
    and "get_option_price option_chain strike_1 ''P'' = Some p1"
    and "get_option_price option_chain strike_2 ''C'' = Some c2"
    and "get_option_price option_chain strike_2 ''P'' = Some p2"
  shows "\<exists>r. calculate_straddle_premiums ops option_chain strike_1 strike_2 = Some r \<and>
           call_1 r = c1 \<and> put_1 r = p1 \<and> call_2 r = c2 \<and> put_2 r = p2 \<and>
           straddle_a r = fl_add ops (call_1 r) (put_1 r) \<and>
           straddle_b r = fl_add ops (call_2 r) (put_2 r) \<and>
           combined r = fl_add ops (straddle_a r) (straddle_b r) \<and>
           combined r = fl_add ops (fl_add ops (call_1 r) (put_1 r))
                                   (fl_add ops (call_2 r) (put_2 r))"
  using assms by (simp add: calculate_straddle_premiums_def Let_def)

theorem straddle_premium_sums_witness:
  "get_option_price (Some (sample_chain 100)) 75000 ''C'' = Some 25 \<and>
   get_option_price (Some (sample_chain 100)) 75000 ''P'' = Some 25 \<and>
   get_option_price (Some (sample_chain 100)) 80000 ''C'' = Some 25 \<and>
   get_option_price (Some (sample_chain 100)) 80000 ''P'' = Some 25 \<and>
   (\<exists>r. calculate_straddle_premiums exact_arith (Some (sample_chain 100)) 75000 80000 = Some r \<and>
        straddle_a r = 50 \<and> straddle_b r = 50 \<and> combined r = 100 \<and>
        combined r = call_1 r + put_1 r + call_2 r + put_2 r)"
proof -
  have legs:
    "get_option_price (Some (sample_chain 100)) 75000 ''C'' = Some 25"
    "get_option_price (Some (sample_chain 100)) 75000 ''P'' = Some 25"
    "get_option_price (Some (sample_chain 100)) 80000 ''C'' = Some 25"
    "get_option_price (Some (sample_chain 100)) 80000 ''P'' = Some 25"
    by (simp_all add: get_option_price_def sample_chain_def sample_ticker_def
        leg_matches_def dict_get_def)
  from straddle_premium_sums [OF legs, of exact_arith]
  obtain r where
    "calculate_straddle_premiums exact_arith (Some (sample_chain 100)) 75000 80000 = Some r"
    and "call_1 r = 25" "put_1 r = 25" "call_2 r = 25" "put_2 r = 25"
    and "straddle_a r = fl_add exact_arith (call_1 r) (put_1 r)"
    and "straddle_b r = fl_add exact_arith (call_2 r) (put_2 r)"
    and "combined r = fl_add exact_arith (straddle_a r) (straddle_b r)"
    by blast
  then have
    "calculate_straddle_premiums exact_arith (Some (sample_chain 100)) 75000 80000 = Some r \<and>
        straddle_a r = 50 \<and> straddle_b r = 50 \<and> combined r = 100 \<and>
        combined r = call_1 r + put_1 r + call_2 r + put_2 r"
    by (simp add: exact_arith_def)
  then show ?thesis using legs by blast
qed

text \<open>
  C5. If no ticker of the chain passes the lookup test for one of the four legs (a call or
  a put at one of the two strikes), the extractor returns no record at all, and the run of
  \<^verbatim>\<open>main\<close> on that chain leaves the session state, hence the history and its length, as
  they were.
\<close>

theorem missing_leg_skips_cycle:
  assumes "option_type = ''C'' \<or> option_type = ''P''"
    and "\<forall>opt\<in>set chain. \<not> leg_matches strike option_type opt"
  shows "(strike = strike_1 \<or> strike = strike_2 \<longrightarrow>
            calculate_straddle_premiums ops (Some chain) strike_1 strike_2 = None) \<and>
         (strike = STRIKE_1 \<or> strike = STRIKE_2 \<longrightarrow>
            snd (main_cycle ops now (Some chain) st) = st \<and>
            length (premium_history (snd (main_cycle ops now (Some chain) st)))
              = length (premium_history st))"
proof -
  have none: "get_option_price (Some chain) strike option_type = None"
    using assms(2) by (simp add: get_option_price_chain scan_chain_None_iff)
  have calc: "calculate_straddle_premiums ops (Some chain) s1 s2 = None"
    if "strike = s1 \<or> strike = s2" for s1 s2
    using that none assms(1) by (auto simp add: calculate_straddle_premiums_def Let_def)
  have "snd (main_cycle ops now (Some chain) st) = st"
    if "strike = STRIKE_1 \<or> strike = STRIKE_2"
    using calc [OF that] by (simp add: main_cycle_def)
  then show ?thesis using calc by simp
qed

theorem missing_leg_skips_cycle_witness:
  "\<not> leg_matches STRIKE_2 ''P'' (sample_ticker 75000 ''C-BTC-75000'' (Some 25)) \<and>
   \<not> leg_matches STRIKE_2 ''P'' (sample_ticker 75000 ''P-BTC-75000'' (Some 25)) \<and>
   \<not> leg_matches STRIKE_2 ''P'' (sample_ticker 80000 ''C-BTC-80000'' (Some 25)) \<and>
   take 3 (sample_chain 100)
     = [sample_ticker 75000 ''C-BTC-75000'' (Some 25),
        sample_ticker 75000 ''P-BTC-75000'' (Some 25),
        sample_ticker 80000 ''C-BTC-80000'' (Some 25)] \<and>
   calculate_straddle_premiums exact_arith (Some (take 3 (sample_chain 100))) STRIKE_1 STRIKE_2
     = None \<and>
   snd (main_cycle exact_arith 7 (Some (take 3 (sample_chain 100))) initial_session)
     = initial_session"
proof -
  have kind: "''P'' = ''C'' \<or> ''P'' = ''P''" by simp
  have chain: "take 3 (sample_chain 100)
     = [sample_ticker 75000 ''C-BTC-75000'' (Some 25),
        sample_ticker 75000 ''P-BTC-75000'' (Some 25),
        sample_ticker 80000 ''C-BTC-80000'' (Some 25)]"
    by (simp add: sample_chain_def)
  have each:
    "\<not> leg_matches STRIKE_2 ''P'' (sample_ticker 75000 ''C-BTC-75000'' (Some 25))"
    "\<not> leg_matches STRIKE_2 ''P'' (sample_ticker 75000 ''P-BTC-75000'' (Some 25))"
    "\<not> leg_matches STRIKE_2 ''P'' (sample_ticker 80000 ''C-BTC-80000'' (Some 25))"
    by (simp_all add: sample_ticker_def leg_matches_def dict_get_def STRIKE_2_def)
  have missing: "\<forall>opt\<in>set (take 3 (sample_chain 100)). \<not> leg_matches STRIKE_2 ''P'' opt"
    unfolding chain using each by simp
  from missing_leg_skips_cycle
    [OF kind missing, of STRIKE_1 STRIKE_2 exact_arith 7 initial_session]
  have "calculate_straddle_premiums exact_arith (Some (take 3 (sample_chain 100)))
          STRIKE_1 STRIKE_2 = None"
    and "snd (main_cycle exact_arith 7 (Some (take 3 (sample_chain 100))) initial_session)
          = initial_session"
    by simp_all
  with each chain show ?thesis by blast
qed

subsection \<open>Risk classifier on a short history\<close>

text \<open>
  C8. For every history with fewer than 10 entries and every current combined premium the
  risk classifier returns the label Neutral with the white icon and the rationale
  "Collecting initial data...".
\<close>

theorem risk_collecting_initial_data:
  "length history < 10 \<Longrightarrow>
   determine_risk_status ops history current_premium
     = Inr (''Neutral'', White_Circle, ''Collecting initial data...'')"
  by (simp add: determine_risk_status_def)

theorem risk_collecting_initial_data_witness:
  "length (map sample_entry [100, 101, 102]) < 10 \<and>
   determine_risk_status exact_arith (map sample_entry [100, 101, 102]) 102
     = Inr (''Neutral'', White_Circle, ''Collecting initial data...'')"
proof -
  have short: "length (map sample_entry [100, 101, 102]) < 10" by simp
  from risk_collecting_initial_data [OF short, of exact_arith 102] short
  show ?thesis by blast
qed

subsection \<open>The classifiers only read the history\<close>

text \<open>
  C10. Run with the history object threaded through every statement that touches it, the
  trend classifier and the risk classifier return the object exactly as they received it
  (same entries, same order, same length), together with the result of the classifier,
  whether that is a label or an exception.
\<close>

theorem classifiers_leave_history:
  "determine_trend_st ops history window = (determine_trend ops history window, history) \<and>
   determine_risk_status_st ops history current_premium
     = (determine_risk_status ops history current_premium, history)"
  by (simp add: determine_trend_st_def determine_trend_def determine_risk_status_st_def
      determine_risk_status_def list_len_def list_slice_from_def list_iterate_def)

subsection \<open>Lookup of a leg whose ticker has no mark price\<close>

text \<open>
  C9, as amended. The lookup returns the price of the first ticker that passes its test.
  If that first matching ticker has no mark-price field, the lookup returns the price 0
  (the default of the missing field) and not the missing-leg signal; and when this holds
  for each of the four legs, the extractor succeeds with four legs of price 0, and with a
  combined premium of 0 when sums of zeros are zero, as they are without rounding.
\<close>

theorem first_match_without_price:
  "(first_match_lacks_price chain strike option_type \<longrightarrow>
      get_option_price (Some chain) strike option_type = Some 0) \<and>
   (first_match_lacks_price chain strike_1 ''C'' \<and> first_match_lacks_price chain strike_1 ''P'' \<and>
    first_match_lacks_price chain strike_2 ''C'' \<and> first_match_lacks_price chain strike_2 ''P'' \<longrightarrow>
      (\<exists>r. calculate_straddle_premiums ops (Some chain) strike_1 strike_2 = Some r \<and>
           call_1 r = 0 \<and> put_1 r = 0 \<and> call_2 r = 0 \<and> put_2 r = 0 \<and>
           combined r = fl_add ops (fl_add ops 0 0) (fl_add ops 0 0)) \<and>
      (\<exists>r. calculate_straddle_premiums exact_arith (Some chain) strike_1 strike_2 = Some r \<and>
           call_1 r = 0 \<and> put_1 r = 0 \<and> call_2 r = 0 \<and> put_2 r = 0 \<and> combined r = 0))"
proof -
  have leg: "get_option_price (Some chain) s ty = Some 0"
    if "first_match_lacks_price chain s ty" for s ty
    using that
    by (auto simp add: get_option_price_chain scan_chain_find first_match_lacks_price_def
        dict_get_def split: option.splits)
  show ?thesis
    by (auto simp add: leg calculate_straddle_premiums_def Let_def exact_arith_def)
qed

theorem first_match_without_price_witness:
  "first_match_lacks_price priceless_chain 75000 ''C'' \<and>
   first_match_lacks_price priceless_chain 75000 ''P'' \<and>
   first_match_lacks_price priceless_chain 80000 ''C'' \<and>
   first_match_lacks_price priceless_chain 80000 ''P'' \<and>
   get_option_price (Some priceless_chain) 80000 ''P'' = Some 0 \<and>
   (\<exists>r. calculate_straddle_premiums exact_arith (Some priceless_chain) 75000 80000 = Some r \<and>
        call_1 r = 0 \<and> put_1 r = 0 \<and> call_2 r = 0 \<and> put_2 r = 0 \<and> combined r = 0)"
proof -
  have legs:
    "first_match_lacks_price priceless_chain 75000 ''C''"
    "first_match_lacks_price priceless_chain 75000 ''P''"
    "first_match_lacks_price priceless_chain 80000 ''C''"
    "first_match_lacks_price priceless_chain 80000 ''P''"
    by (simp_all add: first_match_lacks_price_def priceless_chain_def sample_ticker_def
        leg_matches_def dict_get_def)
  from first_match_without_price [of priceless_chain 80000 "''P''" 75000 80000 exact_arith] legs
  show ?thesis by blast
qed

text \<open>With two matching tickers the first one decides: a chain that contains a matching
  ticker without mark price, after a matching ticker priced 5, yields 5 and not 0.\<close>

theorem later_match_without_price_counterexample:
  "leg_matches 75000 ''C'' (sample_ticker 75000 ''C-BTC-75000'' None) \<and>
   mark_price (sample_ticker 75000 ''C-BTC-75000'' None) = None \<and>
   get_option_price
     (Some [sample_ticker 75000 ''C-BTC-75000'' (Some 5), sample_ticker 75000 ''C-BTC-75000'' None])
     75000 ''C'' = Some 5"
  by (simp add: get_option_price_def sample_ticker_def leg_matches_def dict_get_def)

subsection \<open>Trend classifier\<close>

text \<open>
  C3, as amended. For every history and every window, a history with fewer than \<open>window\<close>
  entries gives InsufficientData. For every window of at least 2 and every history with at
  least \<open>window\<close> entries in which the average of the first half is not zero, the classifier
  takes the last \<open>window\<close> combined premiums, splits them into a first half of
  \<open>floor (window / 2)\<close> elements and a second half of the rest, computes
  \<open>change_pct = (avg second_half - avg first_half) / avg first_half * 100\<close> and returns
  Rising if \<open>change_pct > 1\<close>, Falling if \<open>change_pct < - 1\<close> and Flat otherwise. The averages
  and \<open>change_pct\<close> are the values that the float operations of the interpreter give,
  whatever they round to. For the combined premiums 100, 100, 100, 90, 80 and window 5 it
  returns Falling.
\<close>

theorem determine_trend_spec:
  "(int (length history) < window \<longrightarrow>
      determine_trend ops history window = Inr Insufficient_Data) \<and>
   (2 \<le> window \<and> window \<le> int (length history) \<and>
    average ops (first_half window (last_premiums history window)) \<noteq> 0 \<longrightarrow>
      determine_trend ops history window =
        Inr (trend_of_change
               (change_pct_spec ops (first_half window (last_premiums history window))
                                    (second_half window (last_premiums history window)))) \<and>
      determine_trend ops history window = Inr (trend_spec ops history window)) \<and>
   determine_trend exact_arith (map sample_entry [100, 100, 100, 90, 80]) 5 = Inr Falling"
proof (intro conjI impI)
  show "determine_trend ops history window = Inr Insufficient_Data"
    if "int (length history) < window"
    using that by (simp add: determine_trend_def)
next
  assume a: "2 \<le> window \<and> window \<le> int (length history) \<and>
    average ops (first_half window (last_premiums history window)) \<noteq> 0"
  let ?recent = "last_premiums history window"
  from a have w2: "2 \<le> window" and wl: "window \<le> int (length history)" by simp_all
  from w2 wl have nl: "nat window \<le> length history" by linarith
  have recent: "map combined (slice_from history (- window)) = ?recent"
    using w2 wl by (simp add: slice_from_neg_window last_premiums_def)
  have len: "length ?recent = nat window"
    using nl by (simp add: last_premiums_def)
  have half: "length ?recent div 2 = nat (window div 2)"
    using w2 by (simp only: len)
  have "trend_of_recent ops ?recent =
     Inr (trend_of_change (change_pct_spec ops (take (length ?recent div 2) ?recent)
                                                (drop (length ?recent div 2) ?recent)))"
  proof (rule trend_of_recent_spec)
    show "2 \<le> length ?recent" using w2 by (simp only: len)
    show "average ops (take (length ?recent div 2) ?recent) \<noteq> 0"
      using a by (simp only: half) (simp add: first_half_def)
  qed
  then have main: "determine_trend ops history window =
        Inr (trend_of_change
               (change_pct_spec ops (first_half window ?recent) (second_half window ?recent)))"
    using wl by (simp add: determine_trend_def recent half first_half_def second_half_def)
  then show "determine_trend ops history window =
        Inr (trend_of_change
               (change_pct_spec ops (first_half window ?recent) (second_half window ?recent)))" .
  show "determine_trend ops history window = Inr (trend_spec ops history window)"
    using main wl by (simp add: trend_spec_def Let_def)
next
  show "determine_trend exact_arith (map sample_entry [100, 100, 100, 90, 80]) 5 = Inr Falling"
    by (simp add: classifier_eval)
qed

theorem determine_trend_spec_witness:
  "int (length (map sample_entry [100, 99, 98, 97])) < 5 \<and>
   determine_trend exact_arith (map sample_entry [100, 99, 98, 97]) 5 = Inr Insufficient_Data \<and>
   (2::int) \<le> 5 \<and> 5 \<le> int (length (map sample_entry [100, 100, 100, 90, 80])) \<and>
   average exact_arith
     (first_half 5 (last_premiums (map sample_entry [100, 100, 100, 90, 80]) 5)) = 100 \<and>
   average exact_arith
     (second_half 5 (last_premiums (map sample_entry [100, 100, 100, 90, 80]) 5)) = 90 \<and>
   determine_trend exact_arith (map sample_entry [100, 100, 100, 90, 80]) 5
     = Inr (trend_spec exact_arith (map sample_entry [100, 100, 100, 90, 80]) 5) \<and>
   trend_spec exact_arith (map sample_entry [100, 100, 100, 90, 80]) 5 = Falling"
proof -
  let ?short = "map sample_entry [100, 99, 98, 97]"
  let ?five = "map sample_entry [100, 100, 100, 90, 80]"
  have few: "int (length ?short) < 5" by simp
  have avg1: "average exact_arith (first_half 5 (last_premiums ?five 5)) = 100"
    by (simp add: spec_eval)
  have avg2: "average exact_arith (second_half 5 (last_premiums ?five 5)) = 90"
    by (simp add: spec_eval)
  have nz: "average exact_arith (first_half 5 (last_premiums ?five 5)) \<noteq> 0"
    unfolding avg1 by simp
  have w2: "(2::int) \<le> 5" by simp
  have wl: "5 \<le> int (length ?five)" by simp
  from w2 wl nz have enough: "(2::int) \<le> 5 \<and> 5 \<le> int (length ?five) \<and>
      average exact_arith (first_half 5 (last_premiums ?five 5)) \<noteq> 0"
    by blast
  have falls: "trend_spec exact_arith ?five 5 = Falling"
    by (simp add: spec_eval)
  from determine_trend_spec [of ?short 5 exact_arith] few
  have a: "determine_trend exact_arith ?short 5 = Inr Insufficient_Data" by blast
  from determine_trend_spec [of ?five 5 exact_arith] enough
  have b: "determine_trend exact_arith ?five 5 = Inr (trend_spec exact_arith ?five 5)" by blast
  from few a enough avg1 avg2 b falls show ?thesis by blast
qed

text \<open>Where the claim as first stated fails: a first half that sums to zero and a window
  of 1 both end in a division by zero, and with window 0 the slice \<^verbatim>\<open>history[-0:]\<close> is the
  whole history, so that the result varies although the last 0 premiums are the same empty
  list. No operation rounds on these inputs.\<close>

theorem determine_trend_counterexample:
  "determine_trend exact_arith (map sample_entry [0, 0, 1, 1, 1]) 5 = Inl ZeroDivisionError \<and>
   determine_trend exact_arith (map sample_entry [100]) 1 = Inl ZeroDivisionError \<and>
   last_premiums (map sample_entry [100, 200, 300]) 0 = [] \<and>
   determine_trend exact_arith (map sample_entry [100, 200, 300]) 0 = Inr Rising \<and>
   last_premiums (map sample_entry [300, 200, 100]) 0 = [] \<and>
   determine_trend exact_arith (map sample_entry [300, 200, 100]) 0 = Inr Falling"
  by (simp add: classifier_eval last_premiums_def)

subsection \<open>Risk classifier\<close>

text \<open>
  C4, as amended. For every history with at least 10 entries whose average combined
  premium is not zero and whose premium 10 polls ago is not zero, and for every current
  combined premium, the classifier computes \<open>volatility_pct = (max - min) / avg * 100\<close> over
  the whole history and \<open>recent_change_pct = (current - premium[-10]) / premium[-10] * 100\<close>,
  and returns the first match of: \<open>recent_change_pct < - 5\<close>, Safe, premium compressing;
  \<open>recent_change_pct > 10\<close>, Risky, premium expanding; \<open>volatility_pct > 15\<close>, Risky, high
  volatility; \<open>recent_change_pct > 5\<close>, Neutral, slight expansion; otherwise Safe, premium
  stable. The average and the two percentages are the values that the float operations of
  the interpreter give, whatever they round to.
\<close>

theorem determine_risk_status_spec:
  assumes "10 \<le> length history"
    and "average ops (map combined history) \<noteq> 0"
    and "ten_polls_ago (map combined history) \<noteq> 0"
  shows "determine_risk_status ops history current_premium
           = Inr (risk_spec ops (map combined history) current_premium)"
  using assms risk_of_premiums_spec [of "map combined history" ops current_premium]
  by (simp add: determine_risk_status_def)

theorem determine_risk_status_spec_witness:
  "10 \<le> length (map sample_entry [100, 100, 100, 100, 100, 100, 100, 100, 100, 100]) \<and>
   average exact_arith
     (map combined (map sample_entry [100, 100, 100, 100, 100, 100, 100, 100, 100, 100])) = 100 \<and>
   ten_polls_ago
     (map combined (map sample_entry [100, 100, 100, 100, 100, 100, 100, 100, 100, 100])) = 100 \<and>
   determine_risk_status exact_arith
     (map sample_entry [100, 100, 100, 100, 100, 100, 100, 100, 100, 100]) 112
     = Inr (''Risky'', Red_Circle, ''Premium expanding - Volatility risk increasing'')"
proof -
  let ?h = "map sample_entry [100, 100, 100, 100, 100, 100, 100, 100, 100, 100]"
  have len: "10 \<le> length ?h" by simp
  have avg: "average exact_arith (map combined ?h) = 100"
    by (simp add: average_def sample_entry_def exact_arith_def)
  have ten: "ten_polls_ago (map combined ?h) = 100"
    by (simp add: ten_polls_ago_def sample_entry_def)
  have avg0: "average exact_arith (map combined ?h) \<noteq> 0" unfolding avg by simp
  have ten0: "ten_polls_ago (map combined ?h) \<noteq> 0" unfolding ten by simp
  have spec: "risk_spec exact_arith (map combined ?h) 112
      = (''Risky'', Red_Circle, ''Premium expanding - Volatility risk increasing'')"
    by (simp add: risk_spec_eval)
  from determine_risk_status_spec [OF len avg0 ten0, of 112]
  have "determine_risk_status exact_arith ?h 112
      = Inr (''Risky'', Red_Circle, ''Premium expanding - Volatility risk increasing'')"
    by (simp only: spec)
  with len avg ten show ?thesis by blast
qed

text \<open>Where the claim as first stated fails: a zero average, a zero premium 10 polls ago,
  or both, end in a division by zero. No operation rounds on these inputs.\<close>

theorem determine_risk_status_counterexample:
  "determine_risk_status exact_arith (map sample_entry [0, 0, 0, 0, 0, 0, 0, 0, 0, 0]) 0
     = Inl ZeroDivisionError \<and>
   determine_risk_status exact_arith (map sample_entry [0, 1, 1, 1, 1, 1, 1, 1, 1, 1]) 1
     = Inl ZeroDivisionError \<and>
   determine_risk_status exact_arith (map sample_entry [5, - 5, 0, 0, 0, 0, 0, 0, 0, 0, 0]) 1
     = Inl ZeroDivisionError"
  by (simp add: classifier_eval)

subsection \<open>Zero denominators\<close>

text \<open>
  C6. The claim is that a zero denominator makes the trend classifier return Flat and the
  risk classifier return Neutral. The code has no such guard: on five premiums of 0 the
  trend classifier raises ZeroDivisionError, on a history whose premium 10 polls ago is 0
  the risk classifier raises ZeroDivisionError, and five polls of a chain whose four
  tickers lack a mark price (each leg then counts as 0) end with the exception escaping
  from \<^verbatim>\<open>main\<close>.
\<close>

theorem zero_denominator_raises:
  "determine_trend exact_arith (map sample_entry [0, 0, 0, 0, 0]) 5 = Inl ZeroDivisionError \<and>
   determine_risk_status exact_arith
     (map sample_entry [0, 0, 40, 40, 40, 40, 40, 40, 40, 40, 40]) 40
     = Inl ZeroDivisionError \<and>
   calculate_straddle_premiums exact_arith (Some priceless_chain) STRIKE_1 STRIKE_2
     = Some \<lparr> straddle_a = 0, straddle_b = 0, combined = 0, spot = Some 77000,
              call_1 = 0, put_1 = 0, call_2 = 0, put_2 = 0 \<rparr> \<and>
   fst (run_cycles exact_arith
          [(0, Some priceless_chain), (1, Some priceless_chain),
           (2, Some priceless_chain), (3, Some priceless_chain),
           (4, Some priceless_chain)] initial_session) ! 4
     = Raised ZeroDivisionError"
  by (simp add: cycle_eval classifier_eval)

subsection \<open>Fifteen falling premiums, end to end\<close>

text \<open>
  C7. Fifteen combined premiums fall linearly from 100 to 70. Every history that holds
  these fifteen combined premiums is classified Falling by the trend classifier and Safe by
  the risk classifier with the current premium 70; and fifteen runs of \<^verbatim>\<open>main\<close> from the
  initial session, fed four-leg chains with these combined premiums, build such a history
  and show Falling and Safe at the last run.
\<close>

theorem falling_run_end_to_end:
  "falling_premiums = [100, 685 / 7, 670 / 7, 655 / 7, 640 / 7, 625 / 7, 610 / 7, 85,
                       580 / 7, 565 / 7, 550 / 7, 535 / 7, 520 / 7, 505 / 7, 70] \<and>
   (map combined history = falling_premiums \<longrightarrow>
      determine_trend exact_arith history 5 = Inr Falling \<and>
      determine_risk_status exact_arith history 70
        = Inr (''Safe'', Green_Circle, ''Premium compressing - Theta decay working well'')) \<and>
   map combined (premium_history (snd (run_cycles exact_arith falling_polls initial_session)))
     = falling_premiums \<and>
   last (fst (run_cycles exact_arith falling_polls initial_session))
     = Dashboard \<lparr> straddle_a = 35, straddle_b = 35, combined = 70, spot = Some 77000,
                   call_1 = 35 / 2, put_1 = 35 / 2, call_2 = 35 / 2, put_2 = 35 / 2 \<rparr>
         Falling (''Safe'', Green_Circle, ''Premium compressing - Theta decay working well'')"
proof (intro conjI impI)
  show "falling_premiums = [100, 685 / 7, 670 / 7, 655 / 7, 640 / 7, 625 / 7, 610 / 7, 85,
                       580 / 7, 565 / 7, 550 / 7, 535 / 7, 520 / 7, 505 / 7, 70]"
    by (rule falling_premiums_values)
next
  assume h: "map combined history = falling_premiums"
  have "length (map combined history) = 15"
    unfolding h by (simp add: falling_premiums_values)
  then have len: "length history = 15" by simp
  have "determine_trend exact_arith history 5
      = trend_of_recent exact_arith (slice_from falling_premiums (- 5))"
    using len by (simp add: determine_trend_def map_slice_from h)
  also have "\<dots> = Inr Falling"
    by (simp add: falling_premiums_values trend_of_recent_def slice_from_def py_truediv_def
        Let_def exact_arith_def)
  finally show "determine_trend exact_arith history 5 = Inr Falling" .
  have "determine_risk_status exact_arith history 70
      = risk_of_premiums exact_arith falling_premiums 70"
    using len by (simp add: determine_risk_status_def h)
  also have "\<dots> = Inr (''Safe'', Green_Circle, ''Premium compressing - Theta decay working well'')"
    by (simp add: falling_premiums_values risk_of_premiums_def py_truediv_def py_index_def
        Let_def exact_arith_def)
  finally show "determine_risk_status exact_arith history 70
        = Inr (''Safe'', Green_Circle, ''Premium compressing - Theta decay working well'')" .
next
  show "map combined (premium_history (snd (run_cycles exact_arith falling_polls initial_session)))
     = falling_premiums"
    by (rule falling_run_history)
next
  show "last (fst (run_cycles exact_arith falling_polls initial_session))
     = Dashboard \<lparr> straddle_a = 35, straddle_b = 35, combined = 70, spot = Some 77000,
                   call_1 = 35 / 2, put_1 = 35 / 2, call_2 = 35 / 2, put_2 = 35 / 2 \<rparr>
         Falling (''Safe'', Green_Circle, ''Premium compressing - Theta decay working well'')"
    by (simp add: falling_polls_def falling_premium_def poll_indices_def
        cycle_eval classifier_eval)
qed

theorem falling_run_end_to_end_witness:
  "map combined (premium_history (snd (run_cycles exact_arith falling_polls initial_session)))
     = falling_premiums \<and>
   determine_trend exact_arith
     (premium_history (snd (run_cycles exact_arith falling_polls initial_session))) 5
     = Inr Falling \<and>
   determine_risk_status exact_arith
     (premium_history (snd (run_cycles exact_arith falling_polls initial_session))) 70
     = Inr (''Safe'', Green_Circle, ''Premium compressing - Theta decay working well'')"
proof -
  let ?h = "premium_history (snd (run_cycles exact_arith falling_polls initial_session))"
  have fed: "map combined ?h = falling_premiums"
    by (rule falling_run_history)
  from falling_run_end_to_end [of ?h] fed show ?thesis by blast
qed

end
